theory Spec2Isabelle
  imports Main
begin

section \<open>Python values used by the scripts\<close>

text \<open>
  The scripts read dictionaries produced by \<^verbatim>\<open>json.load\<close> and \<^verbatim>\<open>response.json()\<close>.
  A field that is read with \<^verbatim>\<open>d.get('k')\<close> and then only tested, compared or formatted is
  modelled as a \<open>string option\<close>: \<open>None\<close> is Python's \<^verbatim>\<open>None\<close> (the key is absent),
  \<open>Some s\<close> is the string stored under the key. A value a method is called on, or that is
  indexed, is a JSON value (below), so that the call can fail as it does in Python.
  Strings are byte strings; \<^verbatim>\<open>str.lower\<close> is modelled on the ASCII letters, which is
  where all tokens the scripts search for live.
\<close>

definition py_str :: "string option \<Rightarrow> string" where
  \<comment> \<open>how an f-string renders \<^verbatim>\<open>{x}\<close> for a string or \<^verbatim>\<open>None\<close>\<close>
  "py_str x = (case x of None \<Rightarrow> ''None'' | Some s \<Rightarrow> s)"

definition truthy :: "string option \<Rightarrow> bool" where
  \<comment> \<open>Python truth value: \<^verbatim>\<open>None\<close> and \<^verbatim>\<open>''\<close> are false\<close>
  "truthy x = (case x of None \<Rightarrow> False | Some s \<Rightarrow> s \<noteq> [])"

definition get_or :: "string option \<Rightarrow> string \<Rightarrow> string" where
  \<comment> \<open>\<^verbatim>\<open>d.get(k, default)\<close> where the first argument is \<^verbatim>\<open>d.get(k)\<close>\<close>
  "get_or x dflt = (case x of None \<Rightarrow> dflt | Some s \<Rightarrow> s)"

definition char_lower :: "char \<Rightarrow> char" where
  "char_lower c =
     (let n = (of_char c :: nat) in if 65 \<le> n \<and> n \<le> 90 then char_of (n + 32) else c)"

definition lower :: "string \<Rightarrow> string" where
  \<comment> \<open>\<^verbatim>\<open>s.lower()\<close>\<close>
  "lower s = map char_lower s"

fun py_in :: "string \<Rightarrow> string \<Rightarrow> bool" where
  \<comment> \<open>\<^verbatim>\<open>sub in s\<close> on strings: \<open>sub\<close> occurs in \<open>s\<close> as a contiguous block\<close>
  "py_in sub [] = (sub = [])"
| "py_in sub (c # cs) = (take (length sub) (c # cs) = sub \<or> py_in sub cs)"


section \<open>JSON values and the Python operations the scripts apply to them\<close>

text \<open>
  Response bodies and the configuration file are free-form: the scripts test keys, index
  and call methods on whatever \<^verbatim>\<open>json\<close> produced. \<open>JNull\<close> is \<^verbatim>\<open>None\<close>; a dictionary is
  the list of its items, each key once (a key is looked up with \<open>map_of\<close>). Numbers are
  the integers: no number is computed with.
\<close>

datatype json =
  JNull | JBool bool | JNum int | JStr string | JArr "json list" | JObj "(string \<times> json) list"

record response =
  resp_status_code :: nat
  resp_reason :: string
  resp_url :: string
  resp_headers :: "(string \<times> string) list"
  resp_text :: string
  resp_json :: "string + json"
    \<comment> \<open>what \<^verbatim>\<open>response.json()\<close> gives: the decoded body, or the decoder's message\<close>

text \<open>
  The exceptions of \<^verbatim>\<open>requests\<close>, each with its \<^verbatim>\<open>str(e)\<close>. \<^verbatim>\<open>HTTPError\<close> is the one
  \<^verbatim>\<open>raise_for_status\<close> raises and carries the response; \<^verbatim>\<open>JSONDecodeError\<close> is the one
  \<^verbatim>\<open>response.json()\<close> raises (a \<^verbatim>\<open>RequestException\<close> in requests 2.27 and later).
\<close>

datatype request_exception =
  HTTPError string response
| Timeout string
| RequestFailure string
| JSONDecodeError string

datatype exn =
  RequestException request_exception
| KeyError string
| TypeError
| AttributeError
| IndexError
| OSError string
| ValueError string
| SystemExit nat

definition then_do :: "exn + 'a \<Rightarrow> ('a \<Rightarrow> exn + 'b) \<Rightarrow> exn + 'b" where
  \<comment> \<open>sequencing: an exception ends the computation\<close>
  "then_do m f = (case m of Inl e \<Rightarrow> Inl e | Inr x \<Rightarrow> f x)"

definition json_truthy :: "json \<Rightarrow> bool" where
  "json_truthy v =
     (case v of JNull \<Rightarrow> False | JBool b \<Rightarrow> b | JNum n \<Rightarrow> n \<noteq> 0 | JStr s \<Rightarrow> s \<noteq> []
      | JArr xs \<Rightarrow> xs \<noteq> [] | JObj kvs \<Rightarrow> kvs \<noteq> [])"

definition py_get :: "json \<Rightarrow> string \<Rightarrow> json \<Rightarrow> exn + json" where
  \<comment> \<open>\<^verbatim>\<open>x.get(k, default)\<close>: only a dictionary has the method\<close>
  "py_get x k dflt =
     (case x of JObj kvs \<Rightarrow> (case map_of kvs k of None \<Rightarrow> Inr dflt | Some v \<Rightarrow> Inr v)
      | _ \<Rightarrow> Inl AttributeError)"

definition py_getitem :: "json \<Rightarrow> string \<Rightarrow> exn + json" where
  \<comment> \<open>\<^verbatim>\<open>x[k]\<close> for a string key \<open>k\<close>\<close>
  "py_getitem x k =
     (case x of JObj kvs \<Rightarrow> (case map_of kvs k of None \<Rightarrow> Inl (KeyError k) | Some v \<Rightarrow> Inr v)
      | _ \<Rightarrow> Inl TypeError)"

definition py_contains :: "string \<Rightarrow> json \<Rightarrow> exn + bool" where
  \<comment> \<open>\<^verbatim>\<open>k in x\<close> for a string \<open>k\<close>: a key of a dictionary, an element of a list,
      a substring of a string\<close>
  "py_contains k x =
     (case x of JObj kvs \<Rightarrow> Inr (map_of kvs k \<noteq> None)
      | JArr xs \<Rightarrow> Inr (JStr k \<in> set xs)
      | JStr s \<Rightarrow> Inr (py_in k s)
      | _ \<Rightarrow> Inl TypeError)"

definition py_len :: "json \<Rightarrow> exn + nat" where
  "py_len x =
     (case x of JObj kvs \<Rightarrow> Inr (length kvs) | JArr xs \<Rightarrow> Inr (length xs)
      | JStr s \<Rightarrow> Inr (length s) | _ \<Rightarrow> Inl TypeError)"

definition py_first :: "json \<Rightarrow> exn + json" where
  \<comment> \<open>\<^verbatim>\<open>x[0]\<close>; the keys of a dictionary read from JSON are strings, never \<^verbatim>\<open>0\<close>\<close>
  "py_first x =
     (case x of JArr xs \<Rightarrow> (case xs of [] \<Rightarrow> Inl IndexError | y # _ \<Rightarrow> Inr y)
      | JStr s \<Rightarrow> (case s of [] \<Rightarrow> Inl IndexError | c # _ \<Rightarrow> Inr (JStr [c]))
      | JObj kvs \<Rightarrow> Inl (KeyError ''0'')
      | _ \<Rightarrow> Inl TypeError)"


section \<open>Correlation of configurations and deployments (find\_opus\_deployment.py)\<close>

text \<open>
  The entries of the two listings are dictionaries. The values that are only compared or
  formatted (\<^verbatim>\<open>id\<close>, \<^verbatim>\<open>configurationId\<close>, \<^verbatim>\<open>status\<close>) are strings, or \<^verbatim>\<open>None\<close> when the key
  is absent: no operation on them can raise. The name of a configuration is the one value a
  method is called on, so it is any JSON value: \<open>cfg_name\<close> is \<open>None\<close> when the key is absent
  and \<open>Some v\<close> when the dictionary holds \<open>v\<close> under it, \<open>JNull\<close> included.
\<close>

record configuration =
  cfg_id :: "string option"
  cfg_name :: "json option"

record deployment =
  dep_id :: "string option"
  dep_configurationId :: "string option"
  dep_status :: "string option"

text \<open>The dictionaries appended to \<^verbatim>\<open>opus_configs\<close> (keys \<^verbatim>\<open>id\<close>, \<^verbatim>\<open>name\<close>).\<close>

record opus_config =
  oc_id :: "string option"
  oc_name :: json

text \<open>The dictionaries appended to \<^verbatim>\<open>opus_deployments\<close>.\<close>

record model_match =
  mm_deployment_id :: "string option"
  mm_deployment_url :: "string"
  mm_status :: "string option"
  mm_config_name :: json
  mm_config_id :: "string option"

definition inference_url :: "string option \<Rightarrow> string option \<Rightarrow> string" where
  \<comment> \<open>\<^verbatim>\<open>f"{base_url}/v2/inference/deployments/{deployment_id}"\<close>\<close>
  "inference_url base_url deployment_id =
     py_str base_url @ ''/v2/inference/deployments/'' @ py_str deployment_id"

definition opus_name :: "string \<Rightarrow> bool" where
  \<comment> \<open>find\_opus\_deployment.py, lines 89-90, applied to \<^verbatim>\<open>config.get('name', '')\<close>\<close>
  "opus_name name =
     (let config_name = lower name
      in py_in ''claude-4.5-opus'' config_name \<or> py_in ''claude45_opus'' config_name)"

definition claude_name :: "string \<Rightarrow> bool" where
  \<comment> \<open>list\_configurations.py, line 96, applied to \<^verbatim>\<open>config.get('name', '')\<close>\<close>
  "claude_name config_name =
     (py_in ''claude'' (lower config_name) \<or> py_in ''anthropic'' (lower config_name)
      \<or> py_in ''opus'' (lower config_name))"

definition name_or_empty :: "configuration \<Rightarrow> json" where
  \<comment> \<open>\<^verbatim>\<open>config.get('name', '')\<close>\<close>
  "name_or_empty config = (case cfg_name config of None \<Rightarrow> JStr [] | Some v \<Rightarrow> v)"

definition name_or_none :: "configuration \<Rightarrow> json" where
  \<comment> \<open>\<^verbatim>\<open>config.get('name')\<close>\<close>
  "name_or_none config = (case cfg_name config of None \<Rightarrow> JNull | Some v \<Rightarrow> v)"

definition select_step ::
  "(string \<Rightarrow> bool) \<Rightarrow> opus_config list \<Rightarrow> configuration \<Rightarrow> exn + opus_config list" where
  \<comment> \<open>one iteration of the loop of lines 88-94. Only a string has the method \<^verbatim>\<open>lower\<close>:
      on any other value line 89 raises \<^verbatim>\<open>AttributeError\<close>. The test of lines 89-90 on a
      string name is the parameter.\<close>
  "select_step name_predicate opus_configs config =
     (case name_or_empty config of
        JStr name \<Rightarrow>
          Inr (if name_predicate name
               then opus_configs @ [\<lparr>oc_id = cfg_id config, oc_name = name_or_none config\<rparr>]
               else opus_configs)
      | _ \<Rightarrow> Inl AttributeError)"

fun select_loop ::
  "(string \<Rightarrow> bool) \<Rightarrow> opus_config list \<Rightarrow> configuration list \<Rightarrow> exn + opus_config list" where
  \<comment> \<open>the loop of lines 88-94 from the list built so far: an exception ends it\<close>
  "select_loop name_predicate opus_configs [] = Inr opus_configs"
| "select_loop name_predicate opus_configs (config # configurations) =
     then_do (select_step name_predicate opus_configs config)
       (\<lambda>opus_configs'. select_loop name_predicate opus_configs' configurations)"

definition select_configs ::
  "(string \<Rightarrow> bool) \<Rightarrow> configuration list \<Rightarrow> exn + opus_config list" where
  \<comment> \<open>lines 87-94\<close>
  "select_configs name_predicate configurations = select_loop name_predicate [] configurations"

definition match_config ::
  "string option \<Rightarrow> deployment \<Rightarrow> model_match list \<Rightarrow> opus_config \<Rightarrow> model_match list" where
  \<comment> \<open>one iteration of the inner loop, lines 112-123\<close>
  "match_config base_url deployment opus_deployments oc =
     (if oc_id oc = dep_configurationId deployment
      then opus_deployments @
        [\<lparr>mm_deployment_id = dep_id deployment,
          mm_deployment_url = inference_url base_url (dep_id deployment),
          mm_status = dep_status deployment,
          mm_config_name = oc_name oc,
          mm_config_id = oc_id oc\<rparr>]
      else opus_deployments)"

definition match_deployment ::
  "string option \<Rightarrow> opus_config list \<Rightarrow> model_match list \<Rightarrow> deployment \<Rightarrow> model_match list" where
  \<comment> \<open>one iteration of the outer loop, lines 107-123\<close>
  "match_deployment base_url opus_configs opus_deployments deployment =
     foldl (match_config base_url deployment) opus_deployments opus_configs"

definition match_deployments ::
  "string option \<Rightarrow> opus_config list \<Rightarrow> deployment list \<Rightarrow> model_match list" where
  \<comment> \<open>lines 105-123: reading keys with \<^verbatim>\<open>get\<close>, comparing, formatting and reading the two
      keys every entry of \<^verbatim>\<open>opus_configs\<close> has; no statement of these lines can raise\<close>
  "match_deployments base_url opus_configs deployments =
     foldl (match_deployment base_url opus_configs) [] deployments"

definition correlate ::
  "string option \<Rightarrow> (string \<Rightarrow> bool) \<Rightarrow> configuration list \<Rightarrow> deployment list
     \<Rightarrow> exn + model_match list" where
  \<comment> \<open>lines 87-94 followed by lines 105-123\<close>
  "correlate base_url name_predicate configurations deployments =
     then_do (select_configs name_predicate configurations) (\<lambda>opus_configs.
     Inr (match_deployments base_url opus_configs deployments))"

definition find_opus_deployments ::
  "string option \<Rightarrow> configuration list \<Rightarrow> deployment list \<Rightarrow> exn + model_match list" where
  \<comment> \<open>the correlation as \<^verbatim>\<open>main\<close> runs it\<close>
  "find_opus_deployments base_url configurations deployments =
     correlate base_url opus_name configurations deployments"

text \<open>
  The words of the specification: a configuration whose name is a string (or absent, read
  as the empty string), the text of that name, and the match it describes for a deployment
  and its configuration.
\<close>

definition has_string_name :: "configuration \<Rightarrow> bool" where
  "has_string_name c = (case name_or_empty c of JStr s \<Rightarrow> True | _ \<Rightarrow> False)"

definition name_text :: "configuration \<Rightarrow> string" where
  "name_text c = (case name_or_empty c of JStr s \<Rightarrow> s | _ \<Rightarrow> [])"

definition match_of :: "string option \<Rightarrow> deployment \<Rightarrow> configuration \<Rightarrow> model_match" where
  "match_of base_url d c =
     \<lparr>mm_deployment_id = dep_id d,
      mm_deployment_url = py_str base_url @ ''/v2/inference/deployments/'' @ py_str (dep_id d),
      mm_status = dep_status d,
      mm_config_name = name_or_none c,
      mm_config_id = cfg_id c\<rparr>"


section \<open>The HTTP client (requests) as the scripts use it\<close>

record request =
  req_method :: string
  req_url :: string
  req_headers :: "(string \<times> string) list"
  req_json :: "json option"
  req_timeout :: "nat option"

text \<open>
  What one call of \<^verbatim>\<open>requests.post\<close> or \<^verbatim>\<open>requests.get\<close> does: it returns a response,
  raises \<^verbatim>\<open>requests.Timeout\<close> (\<open>TimedOut\<close>: the connection, or the wait for the response
  headers, exceeded the timeout), or raises another \<^verbatim>\<open>RequestException\<close> (\<open>Failed\<close>); the string is
  \<^verbatim>\<open>str(e)\<close>. Among the others is the \<^verbatim>\<open>ConnectionError\<close> that requests raises
  when the read timeout expires while the body is being read. The network is a function
  from the request sent to that outcome.
\<close>

datatype http_outcome = Responded response | TimedOut string | Failed string

type_synonym transport = "request \<Rightarrow> http_outcome"

text \<open>
  What a function of the scripts did: its value or the exception that left it, the network
  calls it made, in order, and the lines it printed.
\<close>

record 'a run =
  run_result :: "exn + 'a"
  run_calls :: "request list"
  run_printed :: "string list"

fun show_nat :: "nat \<Rightarrow> string" where
  "show_nat n =
     (if n < 10 then [char_of (48 + n)] else show_nat (n div 10) @ [char_of (48 + n mod 10)])"

definition http_error_msg :: "response \<Rightarrow> string" where
  \<comment> \<open>the message \<^verbatim>\<open>raise_for_status\<close> builds\<close>
  "http_error_msg r =
     show_nat (resp_status_code r)
     @ (if resp_status_code r < 500 then '' Client Error: '' else '' Server Error: '')
     @ resp_reason r @ '' for url: '' @ resp_url r"

definition raise_for_status :: "response \<Rightarrow> exn + unit" where
  "raise_for_status r =
     (if 400 \<le> resp_status_code r \<and> resp_status_code r < 600
      then Inl (RequestException (HTTPError (http_error_msg r) r))
      else Inr ())"

definition send :: "transport \<Rightarrow> request \<Rightarrow> exn + response" where
  "send http req =
     (case http req of Responded r \<Rightarrow> Inr r
      | TimedOut m \<Rightarrow> Inl (RequestException (Timeout m))
      | Failed m \<Rightarrow> Inl (RequestException (RequestFailure m)))"

definition response_json :: "response \<Rightarrow> exn + json" where
  "response_json r =
     (case resp_json r of Inl m \<Rightarrow> Inl (RequestException (JSONDecodeError m)) | Inr j \<Rightarrow> Inr j)"

definition exc_str :: "request_exception \<Rightarrow> string" where
  \<comment> \<open>\<^verbatim>\<open>str(e)\<close>\<close>
  "exc_str e =
     (case e of HTTPError m _ \<Rightarrow> m | Timeout m \<Rightarrow> m | RequestFailure m \<Rightarrow> m
      | JSONDecodeError m \<Rightarrow> m)"

definition exc_response_text :: "request_exception \<Rightarrow> string option" where
  \<comment> \<open>\<^verbatim>\<open>e.response.text\<close> when \<^verbatim>\<open>e.response\<close> is not \<^verbatim>\<open>None\<close>\<close>
  "exc_response_text e = (case e of HTTPError _ r \<Rightarrow> Some (resp_text r) | _ \<Rightarrow> None)"

definition header_get :: "(string \<times> string) list \<Rightarrow> string \<Rightarrow> string option" where
  \<comment> \<open>\<^verbatim>\<open>response.headers.get(name)\<close>: header names compare without case\<close>
  "header_get hs name =
     map_option snd (find (\<lambda>kv. lower (fst kv) = lower name) hs)"

definition b64_alphabet :: string where
  "b64_alphabet = ''ABCDEFGHIJKLMNOPQRSTUVWXYZabcdefghijklmnopqrstuvwxyz0123456789+/''"

fun b64_groups :: "nat list \<Rightarrow> string" where
  "b64_groups [] = []"
| "b64_groups [a] =
     [b64_alphabet ! (a div 4), b64_alphabet ! ((a mod 4) * 16), CHR ''='', CHR ''='']"
| "b64_groups [a, b] =
     [b64_alphabet ! (a div 4), b64_alphabet ! ((a mod 4) * 16 + b div 16),
      b64_alphabet ! ((b mod 16) * 4), CHR ''='']"
| "b64_groups (a # b # c # rest) =
     [b64_alphabet ! (a div 4), b64_alphabet ! ((a mod 4) * 16 + b div 16),
      b64_alphabet ! ((b mod 16) * 4 + c div 64), b64_alphabet ! (c mod 64)]
     @ b64_groups rest"

definition b64encode :: "string \<Rightarrow> string" where
  \<comment> \<open>\<^verbatim>\<open>base64.b64encode(s.encode()).decode()\<close>\<close>
  "b64encode s = b64_groups (map of_char s)"


section \<open>Token acquisition\<close>

record service_urls =
  AI_API_URL :: "string option"

record service_key =
  clientid :: "string option"
  clientsecret :: "string option"
  url :: "string option"
  serviceurls :: "service_urls option"

definition api_base_url :: "service_key \<Rightarrow> string option" where
  \<comment> \<open>\<^verbatim>\<open>service_key.get('serviceurls', {}).get('AI_API_URL')\<close>\<close>
  "api_base_url sk = (case serviceurls sk of None \<Rightarrow> None | Some su \<Rightarrow> AI_API_URL su)"

definition token_request :: "service_key \<Rightarrow> request" where
  "token_request sk =
     (let client_id = clientid sk;
          client_secret = clientsecret sk;
          auth_url = url sk;
          auth_string = py_str client_id @ '':'' @ py_str client_secret;
          encoded_auth = b64encode auth_string;
          token_url = py_str auth_url @ ''/oauth/token?grant_type=client_credentials''
      in \<lparr>req_method = ''POST'', req_url = token_url,
          req_headers = [(''Authorization'', ''Basic '' @ encoded_auth)],
          req_json = None, req_timeout = None\<rparr>)"

definition post_token :: "transport \<Rightarrow> request \<Rightarrow> exn + json" where
  \<comment> \<open>\<^verbatim>\<open>requests.post\<close>, \<^verbatim>\<open>raise_for_status\<close>, \<^verbatim>\<open>response.json()['access_token']\<close>\<close>
  "post_token http req =
     then_do (send http req) (\<lambda>response.
     then_do (raise_for_status response) (\<lambda>_.
     then_do (response_json response) (\<lambda>body.
     py_getitem body ''access_token'')))"

definition get_token :: "transport \<Rightarrow> service_key \<Rightarrow> json run" where
  \<comment> \<open>find\_opus\_deployment.py, list\_configurations.py and test\_deployment.py\<close>
  "get_token http sk =
     \<lparr>run_result = post_token http (token_request sk),
      run_calls = [token_request sk], run_printed = []\<rparr>"

definition get_token_checked :: "transport \<Rightarrow> service_key \<Rightarrow> json run" where
  \<comment> \<open>\<^verbatim>\<open>get_token\<close> of list\_deployments.py, lines 26-50\<close>
  "get_token_checked http sk =
     (if \<not> (truthy (clientid sk) \<and> truthy (clientsecret sk) \<and> truthy (url sk))
      then \<lparr>run_result = Inl (SystemExit 1), run_calls = [],
             run_printed = [''Error: Missing required fields in service key'']\<rparr>
      else (case post_token http (token_request sk) of
              Inl (RequestException e) \<Rightarrow>
                \<lparr>run_result = Inl (SystemExit 1), run_calls = [token_request sk],
                 run_printed = [''Error getting token: '' @ exc_str e]\<rparr>
            | other \<Rightarrow>
                \<lparr>run_result = other, run_calls = [token_request sk], run_printed = []\<rparr>))"


section \<open>Listing configurations and deployments\<close>

definition resources_request :: "string \<Rightarrow> service_key \<Rightarrow> string \<Rightarrow> string \<Rightarrow> request" where
  "resources_request path sk token resource_group =
     (let base_url = api_base_url sk
      in \<lparr>req_method = ''GET'', req_url = py_str base_url @ path,
          req_headers = [(''Authorization'', ''Bearer '' @ token),
                         (''AI-Resource-Group'', resource_group)],
          req_json = None, req_timeout = None\<rparr>)"

definition get_resources :: "transport \<Rightarrow> request \<Rightarrow> exn + json" where
  \<comment> \<open>\<^verbatim>\<open>requests.get\<close>, \<^verbatim>\<open>raise_for_status\<close>, \<^verbatim>\<open>response.json().get('resources', [])\<close>\<close>
  "get_resources http req =
     then_do (send http req) (\<lambda>response.
     then_do (raise_for_status response) (\<lambda>_.
     then_do (response_json response) (\<lambda>body.
     py_get body ''resources'' (JArr []))))"

definition error_lines :: "string \<Rightarrow> request_exception \<Rightarrow> string list" where
  \<comment> \<open>the prints of the two \<^verbatim>\<open>except requests.RequestException\<close> handlers\<close>
  "error_lines what e =
     (''Error listing '' @ what @ '': '' @ exc_str e)
     # (case exc_response_text e of Some t \<Rightarrow> [''Response: '' @ t] | None \<Rightarrow> [])"

definition find_list_configurations ::
  "transport \<Rightarrow> service_key \<Rightarrow> string \<Rightarrow> string \<Rightarrow> json run" where
  \<comment> \<open>\<^verbatim>\<open>list_configurations\<close> of find\_opus\_deployment.py, lines 34-46\<close>
  "find_list_configurations http sk token resource_group =
     (let req = resources_request ''/v2/lm/configurations'' sk token resource_group
      in \<lparr>run_result = get_resources http req, run_calls = [req], run_printed = []\<rparr>)"

definition find_list_deployments ::
  "transport \<Rightarrow> service_key \<Rightarrow> string \<Rightarrow> string \<Rightarrow> json run" where
  \<comment> \<open>\<^verbatim>\<open>list_deployments\<close> of find\_opus\_deployment.py, lines 49-61\<close>
  "find_list_deployments http sk token resource_group =
     (let req = resources_request ''/v2/lm/deployments'' sk token resource_group
      in \<lparr>run_result = get_resources http req, run_calls = [req], run_printed = []\<rparr>)"

definition list_configurations ::
  "transport \<Rightarrow> service_key \<Rightarrow> string \<Rightarrow> string \<Rightarrow> json run" where
  \<comment> \<open>list\_configurations.py, lines 36-54\<close>
  "list_configurations http sk token resource_group =
     (let req = resources_request ''/v2/lm/configurations'' sk token resource_group
      in case get_resources http req of
           Inl (RequestException e) \<Rightarrow>
             \<lparr>run_result = Inr (JArr []), run_calls = [req],
              run_printed = error_lines ''configurations'' e\<rparr>
         | other \<Rightarrow> \<lparr>run_result = other, run_calls = [req], run_printed = []\<rparr>)"

definition list_deployments ::
  "transport \<Rightarrow> service_key \<Rightarrow> string \<Rightarrow> string \<Rightarrow> json run" where
  \<comment> \<open>list\_deployments.py, lines 70-92\<close>
  "list_deployments http sk token resource_group =
     (if \<not> truthy (api_base_url sk)
      then \<lparr>run_result = Inl (SystemExit 1), run_calls = [],
             run_printed = [''Error: AI_API_URL not found in service key'']\<rparr>
      else
        (let req = resources_request ''/v2/lm/deployments'' sk token resource_group
         in case get_resources http req of
              Inl (RequestException e) \<Rightarrow>
                \<lparr>run_result = Inl (SystemExit 1), run_calls = [req],
                 run_printed = error_lines ''deployments'' e\<rparr>
            | other \<Rightarrow> \<lparr>run_result = other, run_calls = [req], run_printed = []\<rparr>))"



section \<open>Model identity of a deployment\<close>

definition extract_model_name :: "json \<Rightarrow> exn + json" where
  \<comment> \<open>list\_deployments.py, lines 147-163: the value of \<^verbatim>\<open>model_name\<close> for \<^verbatim>\<open>details\<close>\<close>
  "extract_model_name details =
     then_do (py_get details ''configurationId'' (JStr [])) (\<lambda>config_params.
     then_do
       (then_do (py_contains ''details'' details) (\<lambda>has_details.
        if \<not> has_details then Inr (JStr ''unknown'')
        else
          then_do (py_getitem details ''details'') (\<lambda>inner.
          then_do (py_contains ''resources'' inner) (\<lambda>has_resources.
          if \<not> has_resources then Inr (JStr ''unknown'')
          else
            then_do (py_getitem inner ''resources'') (\<lambda>resources.
            then_do (py_contains ''backend_details'' resources) (\<lambda>has_backend.
            if \<not> has_backend then Inr (JStr ''unknown'')
            else
              then_do (py_getitem resources ''backend_details'') (\<lambda>backend.
              then_do (py_contains ''model'' backend) (\<lambda>has_model.
              if \<not> has_model then Inr (JStr ''unknown'')
              else
                then_do (py_getitem backend ''model'') (\<lambda>model.
                py_getitem model ''name'')))))))))
       (\<lambda>model_name.
          if model_name = JStr ''unknown''
          then then_do (py_get details ''configurationName'' (JStr [])) (\<lambda>config_name.
                 if json_truthy config_name then Inr config_name else Inr model_name)
          else Inr model_name))"


section \<open>The deployment probe (test\_deployment.py)\<close>

text \<open>
  The dictionary \<^verbatim>\<open>test_deployment\<close> returns; a key the dictionary does not have is
  \<open>None\<close>.
\<close>

record probe_result =
  pr_success :: bool
  pr_status_code :: "nat option"
  pr_model_header :: "string option"
  pr_response :: "json option"
  pr_error :: "string option"

definition probe_request :: "service_key \<Rightarrow> string \<Rightarrow> string \<Rightarrow> string \<Rightarrow> request" where
  \<comment> \<open>lines 37-56 and the arguments of \<^verbatim>\<open>requests.post\<close>, line 60\<close>
  "probe_request sk token deployment_id resource_group =
     (let base_url = api_base_url sk;
          deployment_url = inference_url base_url (Some deployment_id);
          headers = [(''Authorization'', ''Bearer '' @ token),
                     (''AI-Resource-Group'', resource_group),
                     (''Content-Type'', ''application/json'')];
          payload = JObj
            [(''anthropic_version'', JStr ''bedrock-2023-05-31''),
             (''max_tokens'', JNum 10),
             (''messages'', JArr [JObj [(''role'', JStr ''user''),
                (''content'', JStr (''Say '' @ [CHR 0x27] @ ''test'' @ [CHR 0x27]))]])]
      in \<lparr>req_method = ''POST'', req_url = deployment_url, req_headers = headers,
          req_json = Some payload, req_timeout = Some 10\<rparr>)"

definition test_deployment ::
  "transport \<Rightarrow> service_key \<Rightarrow> string \<Rightarrow> string \<Rightarrow> string \<Rightarrow> probe_result" where
  \<comment> \<open>lines 35-81: the dictionary returned; the one network call is \<open>probe_request\<close>\<close>
  "test_deployment http sk token deployment_id resource_group =
     (case http (probe_request sk token deployment_id resource_group) of
        Responded response \<Rightarrow>
          (if resp_status_code response = 200
           then (case resp_json response of
                   Inr result \<Rightarrow>
                     \<lparr>pr_success = True, pr_status_code = Some (resp_status_code response),
                      pr_model_header =
                        Some (get_or (header_get (resp_headers response) ''x-model-id'')
                                ''unknown''),
                      pr_response = Some result, pr_error = None\<rparr>
                 | Inl m \<Rightarrow>
                     \<lparr>pr_success = False, pr_status_code = None, pr_model_header = None,
                      pr_response = None, pr_error = Some m\<rparr>)
           else \<lparr>pr_success = False, pr_status_code = Some (resp_status_code response),
                 pr_model_header = None, pr_response = None,
                 pr_error = Some (resp_text response)\<rparr>)
      | TimedOut m \<Rightarrow>
          \<lparr>pr_success = False, pr_status_code = None, pr_model_header = None,
           pr_response = None, pr_error = Some ''Request timeout''\<rparr>
      | Failed m \<Rightarrow>
          \<lparr>pr_success = False, pr_status_code = None, pr_model_header = None,
           pr_response = None, pr_error = Some m\<rparr>)"

definition response_text :: "probe_result \<Rightarrow> exn + json option" where
  \<comment> \<open>\<^verbatim>\<open>main\<close>, lines 123-130: the \<^verbatim>\<open>text\<close> printed after \<^verbatim>\<open>Response:\<close>, if any\<close>
  "response_text result =
     (if pr_success result
      then (case pr_response result of
              None \<Rightarrow> Inr None
            | Some body \<Rightarrow>
                then_do (py_get body ''content'' (JArr [])) (\<lambda>content.
                if json_truthy content
                then then_do (py_len content) (\<lambda>n.
                       if n > 0
                       then then_do (py_first content) (\<lambda>block.
                            then_do (py_get block ''text'' (JStr [])) (\<lambda>text.
                            Inr (Some text)))
                       else Inr None)
                else Inr None))
      else Inr None)"


section \<open>The token of the proxy tests (test\_claude\_code\_integration.py)\<close>

text \<open>
  The file \<^verbatim>\<open>config.json\<close> as \<^verbatim>\<open>get_auth_token\<close> can find it: absent, present but
  \<^verbatim>\<open>open\<close> raises, present but \<^verbatim>\<open>json.load\<close> raises, or present with a decoded value.
\<close>

datatype config_file = Absent | Unreadable string | Malformed string | Parsed json

definition get_auth_token :: "string option \<Rightarrow> config_file \<Rightarrow> exn + json" where
  \<comment> \<open>lines 33-49; the first argument is \<^verbatim>\<open>os.environ.get("ANTHROPIC_AUTH_TOKEN")\<close>\<close>
  "get_auth_token token config_path =
     (if truthy token then Inr (JStr (py_str token))
      else (case config_path of
              Absent \<Rightarrow> Inr (JStr ''sk-my-secret-key-123'')
            | Unreadable m \<Rightarrow> Inl (OSError m)
            | Malformed m \<Rightarrow> Inl (ValueError m)
            | Parsed config \<Rightarrow>
                then_do (py_get config ''secret_authentication_tokens'' (JArr [])) (\<lambda>tokens.
                if json_truthy tokens then py_first tokens
                else Inr (JStr ''sk-my-secret-key-123''))))"


section \<open>The specification's fallback chain\<close>








section \<open>Properties\<close>

subsection \<open>Strings\<close>

lemma char_lower_idem: "char_lower (char_lower c) = char_lower c"
  by (simp add: char_lower_def Let_def)

lemma lower_idem: "lower (lower s) = lower s"
  by (simp add: lower_def char_lower_idem)

text \<open>
  C9. Classifying a configuration name is case-insensitive at both call sites (the tokens
  \<^verbatim>\<open>claude-4.5-opus\<close>, \<^verbatim>\<open>claude45_opus\<close> of find\_opus\_deployment.py and \<^verbatim>\<open>claude\<close>,
  \<^verbatim>\<open>anthropic\<close>, \<^verbatim>\<open>opus\<close> of list\_configurations.py): a name and its lowercased form are
  classified alike, and so are any two names that differ only in case.
\<close>

theorem case_insensitive_classification:
  "opus_name (lower s) = opus_name s \<and> claude_name (lower s) = claude_name s
   \<and> (lower t = lower s \<longrightarrow> opus_name t = opus_name s \<and> claude_name t = claude_name s)"
  by (simp add: opus_name_def claude_name_def lower_idem)

theorem case_insensitive_classification_witness:
  "lower ''CLAUDE-4.5-Opus'' = lower ''claude-4.5-OPUS''
   \<and> opus_name ''CLAUDE-4.5-Opus'' = opus_name ''claude-4.5-OPUS''
   \<and> claude_name ''CLAUDE-4.5-Opus'' = claude_name ''claude-4.5-OPUS''
   \<and> opus_name ''claude-4.5-OPUS''"
proof -
  have h: "lower ''CLAUDE-4.5-Opus'' = lower ''claude-4.5-OPUS''" by code_simp
  have o: "opus_name ''claude-4.5-OPUS''" by code_simp
  show ?thesis
    using h o case_insensitive_classification [of "''claude-4.5-OPUS''" "''CLAUDE-4.5-Opus''"]
    by blast
qed


subsection \<open>The two loops of the correlation as filters\<close>

lemma then_do_Inr [simp]: "then_do (Inr x) f = f x"
  by (simp add: then_do_def)

lemma then_do_Inl [simp]: "then_do (Inl e) f = Inl e"
  by (simp add: then_do_def)

lemma select_step_string:
  "has_string_name c \<Longrightarrow>
   select_step P acc c
     = Inr (if P (name_text c) then acc @ [\<lparr>oc_id = cfg_id c, oc_name = name_or_none c\<rparr>]
            else acc)"
  by (cases "name_or_empty c") (simp_all add: select_step_def has_string_name_def name_text_def)

lemma select_step_not_string:
  "\<not> has_string_name c \<Longrightarrow> select_step P acc c = Inl AttributeError"
  by (cases "name_or_empty c") (simp_all add: select_step_def has_string_name_def)

lemma select_loop_strings:
  "\<forall>c \<in> set cs. has_string_name c \<Longrightarrow>
   select_loop P acc cs
     = Inr (acc @ map (\<lambda>c. \<lparr>oc_id = cfg_id c, oc_name = name_or_none c\<rparr>)
                    (filter (\<lambda>c. P (name_text c)) cs))"
  by (induction cs arbitrary: acc) (simp_all add: select_step_string)

lemma select_loop_not_string:
  "\<exists>c \<in> set cs. \<not> has_string_name c \<Longrightarrow> select_loop P acc cs = Inl AttributeError"
proof (induction cs arbitrary: acc)
  case Nil
  then show ?case by simp
next
  case (Cons c cs)
  show ?case
  proof (cases "has_string_name c")
    case True
    with Cons.prems have "\<exists>c \<in> set cs. \<not> has_string_name c" by auto
    with Cons.IH True show ?thesis by (simp add: select_step_string)
  next
    case False
    then show ?thesis by (simp add: select_step_not_string)
  qed
qed

lemma match_deployment_acc:
  "match_deployment b ocs acc d =
     acc @ map (\<lambda>oc. \<lparr>mm_deployment_id = dep_id d,
                      mm_deployment_url = inference_url b (dep_id d),
                      mm_status = dep_status d,
                      mm_config_name = oc_name oc,
                      mm_config_id = oc_id oc\<rparr>)
             (filter (\<lambda>oc. oc_id oc = dep_configurationId d) ocs)"
  unfolding match_deployment_def
  by (induction ocs arbitrary: acc) (simp_all add: match_config_def)

lemma match_deployment_selected:
  "match_deployment b
     (map (\<lambda>c. \<lparr>oc_id = cfg_id c, oc_name = name_or_none c\<rparr>)
        (filter (\<lambda>c. P (name_text c)) cs)) acc d =
     acc @ map (match_of b d)
       (filter (\<lambda>c. P (name_text c) \<and> cfg_id c = dep_configurationId d) cs)"
  by (simp add: match_deployment_acc filter_map o_def
      match_of_def[abs_def] inference_url_def conj_commute)

lemma match_deployment_selected_nil:
  "match_deployment b
     (map (\<lambda>c. \<lparr>oc_id = cfg_id c, oc_name = name_or_none c\<rparr>)
        (filter (\<lambda>c. P (name_text c)) cs)) [] =
     (\<lambda>d. map (match_of b d)
       (filter (\<lambda>c. P (name_text c) \<and> cfg_id c = dep_configurationId d) cs))"
  by (rule ext) (simp add: match_deployment_selected)

lemma match_deployments_acc:
  "foldl (match_deployment b ocs) acc ds = acc @ concat (map (match_deployment b ocs []) ds)"
proof (induction ds arbitrary: acc)
  case Nil
  then show ?case by simp
next
  case (Cons d ds)
  have "match_deployment b ocs acc d = acc @ match_deployment b ocs [] d"
    by (simp add: match_deployment_acc)
  with Cons show ?case by simp
qed

lemma correlate_strings:
  assumes "\<forall>c \<in> set cs. has_string_name c"
  shows "correlate b P cs ds =
     Inr (concat (map (\<lambda>d. map (match_of b d)
       (filter (\<lambda>c. P (name_text c) \<and> cfg_id c = dep_configurationId d) cs)) ds))"
  using assms
  by (simp add: correlate_def select_configs_def select_loop_strings match_deployments_def
      match_deployments_acc match_deployment_selected_nil)

text \<open>
  A configuration whose name is present and not a string ends the run at line 89, before
  any deployment is looked at.
\<close>

lemma correlate_not_string:
  "\<exists>c \<in> set cs. \<not> has_string_name c \<Longrightarrow> correlate b P cs ds = Inl AttributeError"
  by (simp add: correlate_def select_configs_def select_loop_not_string)


subsection \<open>Correlation\<close>

text \<open>
  C1, as the script has it. For every listing of configurations whose names are strings
  (an absent name is read as the empty string), every listing of deployments and every
  name predicate, the filter loop completes and the correlation returns the matches
  emitted deployment by deployment; a deployment \<open>d\<close> gets a match if and only if some
  configuration \<open>c\<close> of the listing has \<open>cfg_id c = dep_configurationId d\<close> and a name the
  predicate accepts; and the matches are exactly the records carrying the deployment's
  id, derived URL and status with the configuration's name and id (\<open>match_of\<close>), one for
  each such pair.
\<close>

theorem correlate_sound_complete:
  assumes "\<forall>c \<in> set cs. has_string_name c"
  shows "\<exists>ocs. select_configs P cs = Inr ocs
    \<and> correlate b P cs ds = Inr (concat (map (match_deployment b ocs []) ds))
    \<and> (\<forall>d. (match_deployment b ocs [] d \<noteq> [])
           = (\<exists>c \<in> set cs. cfg_id c = dep_configurationId d \<and> P (name_text c)))
    \<and> (\<forall>d. set (match_deployment b ocs [] d)
           = match_of b d ` {c \<in> set cs. cfg_id c = dep_configurationId d \<and> P (name_text c)})
    \<and> (\<forall>m. (m \<in> set (concat (map (match_deployment b ocs []) ds)))
           = (\<exists>d \<in> set ds. \<exists>c \<in> set cs. cfg_id c = dep_configurationId d
                \<and> P (name_text c) \<and> m = match_of b d c))"
proof -
  define ocs where
    "ocs = map (\<lambda>c. \<lparr>oc_id = cfg_id c, oc_name = name_or_none c\<rparr>)
             (filter (\<lambda>c. P (name_text c)) cs)"
  have sel: "select_configs P cs = Inr ocs"
    using assms by (simp add: select_configs_def select_loop_strings ocs_def)
  have one: "match_deployment b ocs [] d = map (match_of b d)
       (filter (\<lambda>c. P (name_text c) \<and> cfg_id c = dep_configurationId d) cs)" for d
    by (simp add: ocs_def match_deployment_selected)
  have cor: "correlate b P cs ds = Inr (concat (map (match_deployment b ocs []) ds))"
    using sel by (simp add: correlate_def match_deployments_def match_deployments_acc)
  have nonempty: "\<forall>d. (match_deployment b ocs [] d \<noteq> [])
           = (\<exists>c \<in> set cs. cfg_id c = dep_configurationId d \<and> P (name_text c))"
    by (auto simp: one filter_empty_conv)
  have image: "\<forall>d. set (match_deployment b ocs [] d)
           = match_of b d ` {c \<in> set cs. cfg_id c = dep_configurationId d \<and> P (name_text c)}"
    by (auto simp: one)
  have member: "\<forall>m. (m \<in> set (concat (map (match_deployment b ocs []) ds)))
           = (\<exists>d \<in> set ds. \<exists>c \<in> set cs. cfg_id c = dep_configurationId d
                \<and> P (name_text c) \<and> m = match_of b d c)"
    by (auto simp: one)
  from sel cor nonempty image member show ?thesis by blast
qed

theorem correlate_sound_complete_witness:
  "find_opus_deployments (Some ''https://api.example.com'')
     [\<lparr>cfg_id = Some ''c1'', cfg_name = Some (JStr ''Claude-4.5-Opus-v1'')\<rparr>,
      \<lparr>cfg_id = Some ''c2'', cfg_name = Some (JStr ''gpt-4o'')\<rparr>]
     [\<lparr>dep_id = Some ''d1'', dep_configurationId = Some ''c1'', dep_status = Some ''RUNNING''\<rparr>,
      \<lparr>dep_id = Some ''d2'', dep_configurationId = Some ''c2'', dep_status = Some ''RUNNING''\<rparr>]
   = Inr [\<lparr>mm_deployment_id = Some ''d1'',
       mm_deployment_url = ''https://api.example.com/v2/inference/deployments/d1'',
       mm_status = Some ''RUNNING'',
       mm_config_name = JStr ''Claude-4.5-Opus-v1'',
       mm_config_id = Some ''c1''\<rparr>]"
proof -
  have n1: "opus_name ''Claude-4.5-Opus-v1''" by code_simp
  have n2: "\<not> opus_name ''gpt-4o''" by code_simp
  have h: "\<forall>c \<in> set [\<lparr>cfg_id = Some ''c1'', cfg_name = Some (JStr ''Claude-4.5-Opus-v1'')\<rparr>,
                       \<lparr>cfg_id = Some ''c2'', cfg_name = Some (JStr ''gpt-4o'')\<rparr>].
             has_string_name c"
    by (simp add: has_string_name_def name_or_empty_def)
  have sel: "select_configs opus_name
            [\<lparr>cfg_id = Some ''c1'', cfg_name = Some (JStr ''Claude-4.5-Opus-v1'')\<rparr>,
             \<lparr>cfg_id = Some ''c2'', cfg_name = Some (JStr ''gpt-4o'')\<rparr>]
         = Inr [\<lparr>oc_id = Some ''c1'', oc_name = JStr ''Claude-4.5-Opus-v1''\<rparr>]"
    by (simp add: select_configs_def select_step_def name_or_empty_def name_or_none_def n1 n2)
  have m1: "match_deployment (Some ''https://api.example.com'')
              [\<lparr>oc_id = Some ''c1'', oc_name = JStr ''Claude-4.5-Opus-v1''\<rparr>] []
              \<lparr>dep_id = Some ''d1'', dep_configurationId = Some ''c1'', dep_status = Some ''RUNNING''\<rparr>
            = [\<lparr>mm_deployment_id = Some ''d1'',
       mm_deployment_url = ''https://api.example.com/v2/inference/deployments/d1'',
       mm_status = Some ''RUNNING'',
       mm_config_name = JStr ''Claude-4.5-Opus-v1'',
       mm_config_id = Some ''c1''\<rparr>]"
    by (simp add: match_deployment_def match_config_def inference_url_def py_str_def)
  have m2: "match_deployment (Some ''https://api.example.com'')
              [\<lparr>oc_id = Some ''c1'', oc_name = JStr ''Claude-4.5-Opus-v1''\<rparr>] []
              \<lparr>dep_id = Some ''d2'', dep_configurationId = Some ''c2'', dep_status = Some ''RUNNING''\<rparr>
            = []"
    by (simp add: match_deployment_def match_config_def)
  show ?thesis
    unfolding find_opus_deployments_def
    using correlate_sound_complete [OF h, of opus_name "Some ''https://api.example.com''"
      "[\<lparr>dep_id = Some ''d1'', dep_configurationId = Some ''c1'', dep_status = Some ''RUNNING''\<rparr>,
        \<lparr>dep_id = Some ''d2'', dep_configurationId = Some ''c2'', dep_status = Some ''RUNNING''\<rparr>]"]
    unfolding sel
    by (elim exE conjE) (simp add: m1 m2)
qed

text \<open>
  The claim fails on a listing that holds a configuration whose name is \<^verbatim>\<open>null\<close>: line 89
  raises \<^verbatim>\<open>AttributeError\<close> and no match is emitted, although the deployment \<^verbatim>\<open>d1\<close>
  refers to the configuration \<^verbatim>\<open>c1\<close>, whose name the test of the script accepts.
\<close>

theorem correlate_null_name_counterexample:
  "find_opus_deployments (Some ''https://api.example.com'')
     [\<lparr>cfg_id = Some ''c0'', cfg_name = Some JNull\<rparr>,
      \<lparr>cfg_id = Some ''c1'', cfg_name = Some (JStr ''claude-4.5-opus-v1'')\<rparr>]
     [\<lparr>dep_id = Some ''d1'', dep_configurationId = Some ''c1'', dep_status = Some ''RUNNING''\<rparr>]
   = Inl AttributeError
   \<and> opus_name ''claude-4.5-opus-v1''"
proof -
  have "opus_name ''claude-4.5-opus-v1''" by code_simp
  then show ?thesis
    by (simp add: find_opus_deployments_def correlate_def select_configs_def select_step_def
        name_or_empty_def)
qed

text \<open>
  C6, as the script has it. For every listing of configurations whose names are strings
  (an absent name is read as the empty string) and every deployment whose
  \<open>configurationId\<close> equals the id of no configuration of the listing, the correlation
  completes normally, with a list of matches and no exception, and the deployment adds
  nothing to it: the result is that of the listing without the deployment, no match refers
  to the deployment's configuration id, and the deployment's own iteration leaves the list
  as it was. Nothing is printed about the deployment.
\<close>

theorem dangling_deployment_excluded:
  assumes "\<forall>c \<in> set cs. has_string_name c"
    and "\<forall>c \<in> set cs. cfg_id c \<noteq> dep_configurationId d"
  shows "\<exists>ms ocs. correlate b P cs (ds1 @ d # ds2) = Inr ms
    \<and> correlate b P cs (ds1 @ ds2) = Inr ms
    \<and> (\<forall>m \<in> set ms. mm_config_id m \<noteq> dep_configurationId d)
    \<and> select_configs P cs = Inr ocs
    \<and> (\<forall>acc. match_deployment b ocs acc d = acc)"
proof -
  define ocs where
    "ocs = map (\<lambda>c. \<lparr>oc_id = cfg_id c, oc_name = name_or_none c\<rparr>)
             (filter (\<lambda>c. P (name_text c)) cs)"
  define ms where
    "ms = concat (map (\<lambda>d. map (match_of b d)
       (filter (\<lambda>c. P (name_text c) \<and> cfg_id c = dep_configurationId d) cs)) (ds1 @ ds2))"
  have e: "filter (\<lambda>c. P (name_text c) \<and> cfg_id c = dep_configurationId d) cs = []"
    using assms(2) by (simp add: filter_empty_conv)
  have "correlate b P cs (ds1 @ d # ds2) = Inr ms"
    by (simp add: correlate_strings [OF assms(1)] ms_def e)
  moreover have "correlate b P cs (ds1 @ ds2) = Inr ms"
    by (simp add: correlate_strings [OF assms(1)] ms_def)
  moreover have "\<forall>m \<in> set ms. mm_config_id m \<noteq> dep_configurationId d"
    using assms(2) by (auto simp: ms_def match_of_def)
  moreover have "select_configs P cs = Inr ocs"
    using assms(1) by (simp add: select_configs_def select_loop_strings ocs_def)
  moreover have "\<forall>acc. match_deployment b ocs acc d = acc"
    by (simp add: ocs_def match_deployment_selected e)
  ultimately show ?thesis by blast
qed

theorem dangling_deployment_excluded_witness:
  "correlate (Some ''https://api.example.com'') opus_name
     [\<lparr>cfg_id = Some ''c1'', cfg_name = Some (JStr ''claude-4.5-opus-v1'')\<rparr>]
     [\<lparr>dep_id = Some ''d9'', dep_configurationId = Some ''deleted'',
       dep_status = Some ''RUNNING''\<rparr>] = Inr []"
proof -
  have h1: "\<forall>c \<in> set [\<lparr>cfg_id = Some ''c1'', cfg_name = Some (JStr ''claude-4.5-opus-v1'')\<rparr>].
             has_string_name c"
    by (simp add: has_string_name_def name_or_empty_def)
  have h2: "\<forall>c \<in> set [\<lparr>cfg_id = Some ''c1'', cfg_name = Some (JStr ''claude-4.5-opus-v1'')\<rparr>].
             cfg_id c \<noteq> dep_configurationId
               \<lparr>dep_id = Some ''d9'', dep_configurationId = Some ''deleted'',
                dep_status = Some ''RUNNING''\<rparr>"
    by simp
  have b: "correlate (Some ''https://api.example.com'') opus_name
          [\<lparr>cfg_id = Some ''c1'', cfg_name = Some (JStr ''claude-4.5-opus-v1'')\<rparr>] []
        = Inr []"
    by (simp add: correlate_strings [OF h1])
  show ?thesis
    using dangling_deployment_excluded [OF h1 h2, of "Some ''https://api.example.com''"
      opus_name "[]" "[]"]
    by (elim exE conjE) (simp add: b)
qed

text \<open>
  The claim fails on a listing that holds a configuration whose name is \<^verbatim>\<open>null\<close>: the
  deployment refers to no configuration of the listing, and the run does not complete:
  line 89 raises \<^verbatim>\<open>AttributeError\<close>.
\<close>

theorem dangling_deployment_raises_counterexample:
  "correlate (Some ''https://api.example.com'') opus_name
     [\<lparr>cfg_id = Some ''c1'', cfg_name = Some JNull\<rparr>]
     [\<lparr>dep_id = Some ''d9'', dep_configurationId = Some ''deleted'',
       dep_status = Some ''RUNNING''\<rparr>] = Inl AttributeError"
  by (simp add: correlate_def select_configs_def select_step_def name_or_empty_def)


subsection \<open>The derived deployment URL\<close>

text \<open>
  C7. For every API base URL \<open>b\<close> and deployment id \<open>d\<close> the derived URL is
  \<open>b\<close>, then \<^verbatim>\<open>/v2/inference/deployments/\<close>, then \<open>d\<close>: in the f-string itself, in
  the request the probe sends, and in the match the correlation appends; for the id
  \<^verbatim>\<open>d0c56b8d3578bd1b\<close> and the base \<^verbatim>\<open>https://api.example.com\<close> it is the URL the
  specification gives.
\<close>

theorem deployment_url_format:
  "inference_url (Some b) (Some d) = b @ ''/v2/inference/deployments/'' @ d
   \<and> inference_url (Some ''https://api.example.com'') (Some ''d0c56b8d3578bd1b'')
       = ''https://api.example.com/v2/inference/deployments/d0c56b8d3578bd1b''
   \<and> req_url (probe_request (sk\<lparr>serviceurls := Some \<lparr>AI_API_URL = Some b\<rparr>\<rparr>) token d rg)
       = b @ ''/v2/inference/deployments/'' @ d
   \<and> match_config (Some b) (dep\<lparr>dep_id := Some d\<rparr>) acc
         \<lparr>oc_id = dep_configurationId dep, oc_name = n\<rparr>
       = acc @ [\<lparr>mm_deployment_id = Some d,
                 mm_deployment_url = b @ ''/v2/inference/deployments/'' @ d,
                 mm_status = dep_status dep, mm_config_name = n,
                 mm_config_id = dep_configurationId dep\<rparr>]"
  by (simp add: inference_url_def py_str_def probe_request_def api_base_url_def
      match_config_def Let_def)


subsection \<open>The probe\<close>

text \<open>
  C8. A probe answered with status 200 and the body
  \<^verbatim>\<open>{"content":[{"type":"text","text":"test"}]}\<close> returns a dictionary whose \<^verbatim>\<open>success\<close>
  is true, and the text \<^verbatim>\<open>main\<close> takes from the first content block is \<^verbatim>\<open>test\<close>,
  whatever the other parts of the response and the arguments are.
\<close>

theorem probe_ok_extracts_text:
  "pr_success (test_deployment
      (\<lambda>_. Responded (r\<lparr>resp_status_code := 200,
         resp_json := Inr (JObj [(''content'',
           JArr [JObj [(''type'', JStr ''text''), (''text'', JStr ''test'')]])])\<rparr>))
      sk token d rg)
   \<and> response_text (test_deployment
      (\<lambda>_. Responded (r\<lparr>resp_status_code := 200,
         resp_json := Inr (JObj [(''content'',
           JArr [JObj [(''type'', JStr ''text''), (''text'', JStr ''test'')]])])\<rparr>))
      sk token d rg) = Inr (Some (JStr ''test''))"
  by (simp add: test_deployment_def response_text_def py_get_def json_truthy_def
      py_len_def py_first_def)





subsection \<open>Model identity\<close>






text \<open>
  The probe stops at the header, although the comment of line 64 of test\_deployment.py
  announces model information taken from the response headers or the body: a response
  without the header whose body names the model is reported as \<^verbatim>\<open>unknown\<close>, and an empty
  header is reported as the empty string.
\<close>

lemma probe_reads_header_only:
  "pr_model_header (test_deployment
      (\<lambda>_. Responded \<lparr>resp_status_code = 200, resp_reason = ''OK'',
         resp_url = ''https://api.example.com/v2/inference/deployments/d1'',
         resp_headers = [], resp_text = [],
         resp_json = Inr (JObj [(''configurationName'', JStr ''opus-config''),
              (''details'', JObj [(''resources'', JObj [(''backend_details'',
                 JObj [(''model'', JObj [(''name'', JStr ''model-b'')])])])])])\<rparr>)
      \<lparr>clientid = Some ''id'', clientsecret = Some ''secret'',
       url = Some ''https://auth.example.com'',
       serviceurls = Some \<lparr>AI_API_URL = Some ''https://api.example.com''\<rparr>\<rparr>
      ''T'' ''d1'' ''default'')
     = Some ''unknown''
   \<and> pr_model_header (test_deployment
      (\<lambda>_. Responded \<lparr>resp_status_code = 200, resp_reason = ''OK'',
         resp_url = ''https://api.example.com/v2/inference/deployments/d1'',
         resp_headers = [(''x-model-id'', [])], resp_text = [],
         resp_json = Inr (JObj [(''content'', JArr [])])\<rparr>)
      \<lparr>clientid = Some ''id'', clientsecret = Some ''secret'',
       url = Some ''https://auth.example.com'',
       serviceurls = Some \<lparr>AI_API_URL = Some ''https://api.example.com''\<rparr>\<rparr>
      ''T'' ''d1'' ''default'')
     = Some []"
  by (simp add: test_deployment_def header_get_def get_or_def lower_def)

text \<open>
  Outside these details bodies the extraction of list\_deployments.py does not follow the
  chain: an empty nested name is kept and the configuration name is not tried, and a model
  entry without a name raises \<^verbatim>\<open>KeyError\<close>.
\<close>

lemma extract_model_name_outside_chain:
  "extract_model_name
     (JObj [(''configurationName'', JStr ''opus-config''),
            (''details'', JObj [(''resources'', JObj [(''backend_details'',
               JObj [(''model'', JObj [(''name'', JStr [])])])])])])
     = Inr (JStr [])
   \<and> extract_model_name
     (JObj [(''configurationName'', JStr ''opus-config''),
            (''details'', JObj [(''resources'', JObj [(''backend_details'',
               JObj [(''model'', JObj [(''version'', JStr ''1'')])])])])])
     = Inl (KeyError ''name'')"
  by (simp add: extract_model_name_def py_get_def py_contains_def py_getitem_def)


subsection \<open>Token acquisition\<close>

text \<open>
  C2, as the scripts have it. In list\_deployments.py, for every service key in which the
  client id, the client secret or the auth base URL is missing or empty, \<^verbatim>\<open>get_token\<close>
  prints a message and ends the run with exit status 1 before any network call. The API
  base URL is not a field of token acquisition: it is tested after the token has been
  acquired, by \<^verbatim>\<open>list_deployments\<close>, which ends the run with exit status 1 before its own
  network call when the URL is missing or empty.
\<close>

theorem token_guard:
  "(clientid sk = None \<or> clientid sk = Some [] \<or> clientsecret sk = None
      \<or> clientsecret sk = Some [] \<or> url sk = None \<or> url sk = Some []
    \<longrightarrow> get_token_checked http sk
          = \<lparr>run_result = Inl (SystemExit 1), run_calls = [],
             run_printed = [''Error: Missing required fields in service key'']\<rparr>)
   \<and> (api_base_url sk = None \<or> api_base_url sk = Some []
    \<longrightarrow> list_deployments http sk token rg
          = \<lparr>run_result = Inl (SystemExit 1), run_calls = [],
             run_printed = [''Error: AI_API_URL not found in service key'']\<rparr>)"
  by (auto simp: get_token_checked_def list_deployments_def truthy_def)

theorem token_guard_witness:
  "get_token_checked (\<lambda>_. Failed ''unreachable'')
     \<lparr>clientid = Some ''id'', clientsecret = Some [], url = Some ''https://auth.example.com'',
      serviceurls = None\<rparr>
     = \<lparr>run_result = Inl (SystemExit 1), run_calls = [],
        run_printed = [''Error: Missing required fields in service key'']\<rparr>
   \<and> list_deployments (\<lambda>_. Failed ''unreachable'')
     \<lparr>clientid = Some ''id'', clientsecret = Some [], url = Some ''https://auth.example.com'',
      serviceurls = None\<rparr> ''T'' ''default''
     = \<lparr>run_result = Inl (SystemExit 1), run_calls = [],
        run_printed = [''Error: AI_API_URL not found in service key'']\<rparr>"
  using token_guard [of "\<lparr>clientid = Some ''id'', clientsecret = Some [],
      url = Some ''https://auth.example.com'', serviceurls = None\<rparr>"
      "\<lambda>_. Failed ''unreachable''" "''T''" "''default''"]
  by (simp add: api_base_url_def)

lemma b64_id_secret: "b64encode ''id:secret'' = ''aWQ6c2VjcmV0''"
  by code_simp

lemma b64_none_secret: "b64encode ''None:secret'' = ''Tm9uZTpzZWNyZXQ=''"
  by code_simp

text \<open>
  The claim fails on the fourth field, and on the scripts without the test. With the
  three token fields present and no API base URL, \<^verbatim>\<open>get_token\<close> of list\_deployments.py
  posts to the token endpoint and returns the token. With the client id missing,
  \<^verbatim>\<open>get_token\<close> of find\_opus\_deployment.py posts the credentials \<^verbatim>\<open>None:secret\<close>.
\<close>

theorem token_without_api_url_counterexample:
  "get_token_checked
     (\<lambda>_. Responded \<lparr>resp_status_code = 200, resp_reason = ''OK'',
        resp_url = ''https://auth.example.com/oauth/token?grant_type=client_credentials'',
        resp_headers = [], resp_text = [],
        resp_json = Inr (JObj [(''access_token'', JStr ''T'')])\<rparr>)
     \<lparr>clientid = Some ''id'', clientsecret = Some ''secret'',
      url = Some ''https://auth.example.com'', serviceurls = None\<rparr>
   = \<lparr>run_result = Inr (JStr ''T''),
      run_calls = [\<lparr>req_method = ''POST'',
        req_url = ''https://auth.example.com/oauth/token?grant_type=client_credentials'',
        req_headers = [(''Authorization'', ''Basic aWQ6c2VjcmV0'')],
        req_json = None, req_timeout = None\<rparr>],
      run_printed = []\<rparr>
  \<and> get_token
     (\<lambda>_. Responded \<lparr>resp_status_code = 200, resp_reason = ''OK'',
        resp_url = ''https://auth.example.com/oauth/token?grant_type=client_credentials'',
        resp_headers = [], resp_text = [],
        resp_json = Inr (JObj [(''access_token'', JStr ''T'')])\<rparr>)
     \<lparr>clientid = None, clientsecret = Some ''secret'',
      url = Some ''https://auth.example.com'',
      serviceurls = Some \<lparr>AI_API_URL = Some ''https://api.example.com''\<rparr>\<rparr>
   = \<lparr>run_result = Inr (JStr ''T''),
      run_calls = [\<lparr>req_method = ''POST'',
        req_url = ''https://auth.example.com/oauth/token?grant_type=client_credentials'',
        req_headers = [(''Authorization'', ''Basic Tm9uZTpzZWNyZXQ='')],
        req_json = None, req_timeout = None\<rparr>],
      run_printed = []\<rparr>"
  by (simp add: get_token_checked_def get_token_def truthy_def token_request_def py_str_def
      post_token_def send_def raise_for_status_def response_json_def py_getitem_def
      b64_id_secret b64_none_secret)


subsection \<open>Listing errors\<close>

lemma get_resources_error:
  assumes "400 \<le> resp_status_code r" "resp_status_code r < 600"
  shows "get_resources (\<lambda>_. Responded r) req
           = Inl (RequestException (HTTPError (http_error_msg r) r))"
  using assms by (simp add: get_resources_def send_def raise_for_status_def)

text \<open>
  C3, as the scripts have it. For every listing call answered with a status from 400 to
  599 the failure is reported with the status code and the body text: the listers of
  find\_opus\_deployment.py raise the \<^verbatim>\<open>HTTPError\<close> that carries the response;
  \<^verbatim>\<open>list_deployments\<close> of list\_deployments.py prints the error, which begins with the
  status code, and the body text, and ends the run with exit status 1;
  \<^verbatim>\<open>list_configurations\<close> of list\_configurations.py prints the same two lines and returns
  the empty list to its caller.
\<close>

theorem listing_error_reporting:
  assumes "400 \<le> resp_status_code r" and "resp_status_code r < 600"
  shows "run_result (find_list_configurations (\<lambda>_. Responded r) sk token rg)
           = Inl (RequestException (HTTPError (http_error_msg r) r))
    \<and> run_result (find_list_deployments (\<lambda>_. Responded r) sk token rg)
           = Inl (RequestException (HTTPError (http_error_msg r) r))
    \<and> list_configurations (\<lambda>_. Responded r) sk token rg
           = \<lparr>run_result = Inr (JArr []),
              run_calls = [resources_request ''/v2/lm/configurations'' sk token rg],
              run_printed = [''Error listing configurations: '' @ http_error_msg r,
                             ''Response: '' @ resp_text r]\<rparr>
    \<and> (truthy (api_base_url sk) \<longrightarrow>
         list_deployments (\<lambda>_. Responded r) sk token rg
           = \<lparr>run_result = Inl (SystemExit 1),
              run_calls = [resources_request ''/v2/lm/deployments'' sk token rg],
              run_printed = [''Error listing deployments: '' @ http_error_msg r,
                             ''Response: '' @ resp_text r]\<rparr>)
    \<and> http_error_msg r
         = show_nat (resp_status_code r)
           @ (if resp_status_code r < 500 then '' Client Error: '' else '' Server Error: '')
           @ resp_reason r @ '' for url: '' @ resp_url r"
  using assms
  by (simp add: find_list_configurations_def find_list_deployments_def list_configurations_def
      list_deployments_def get_resources_error error_lines_def exc_str_def
      exc_response_text_def Let_def http_error_msg_def)

lemma show_nat_500: "show_nat 500 = ''500''"
  by code_simp

theorem listing_error_reporting_witness:
  "list_deployments
     (\<lambda>_. Responded \<lparr>resp_status_code = 500, resp_reason = ''Internal Server Error'',
        resp_url = ''https://api.example.com/v2/lm/deployments'', resp_headers = [],
        resp_text = ''upstream failure'', resp_json = Inl ''Expecting value''\<rparr>)
     \<lparr>clientid = Some ''id'', clientsecret = Some ''secret'',
      url = Some ''https://auth.example.com'',
      serviceurls = Some \<lparr>AI_API_URL = Some ''https://api.example.com''\<rparr>\<rparr>
     ''T'' ''default''
   = \<lparr>run_result = Inl (SystemExit 1),
      run_calls = [\<lparr>req_method = ''GET'',
        req_url = ''https://api.example.com/v2/lm/deployments'',
        req_headers = [(''Authorization'', ''Bearer T''), (''AI-Resource-Group'', ''default'')],
        req_json = None, req_timeout = None\<rparr>],
      run_printed =
        [''Error listing deployments: 500 Server Error: Internal Server Error for url: https://api.example.com/v2/lm/deployments'',
         ''Response: upstream failure'']\<rparr>"
  using listing_error_reporting
    [of "\<lparr>resp_status_code = 500, resp_reason = ''Internal Server Error'',
        resp_url = ''https://api.example.com/v2/lm/deployments'', resp_headers = [],
        resp_text = ''upstream failure'', resp_json = Inl ''Expecting value''\<rparr>"
      "\<lparr>clientid = Some ''id'', clientsecret = Some ''secret'',
      url = Some ''https://auth.example.com'',
      serviceurls = Some \<lparr>AI_API_URL = Some ''https://api.example.com''\<rparr>\<rparr>"
      "''T''" "''default''"]
  by (simp add: truthy_def api_base_url_def resources_request_def py_str_def show_nat_500
      del: show_nat.simps)

text \<open>
  The claim fails in two ways. Answered with status 500, \<^verbatim>\<open>list_configurations\<close> of
  list\_configurations.py returns the empty list: its caller cannot tell the failure from
  a listing without configurations. Answered with status 300 and a JSON body without
  \<^verbatim>\<open>resources\<close>, \<^verbatim>\<open>list_deployments\<close> returns the empty list and prints nothing:
  \<^verbatim>\<open>raise_for_status\<close> raises from 400 on.
\<close>

theorem listing_silent_default_counterexample:
  "list_configurations
     (\<lambda>_. Responded \<lparr>resp_status_code = 500, resp_reason = ''Internal Server Error'',
        resp_url = ''https://api.example.com/v2/lm/configurations'', resp_headers = [],
        resp_text = ''upstream failure'', resp_json = Inl ''Expecting value''\<rparr>)
     \<lparr>clientid = Some ''id'', clientsecret = Some ''secret'',
      url = Some ''https://auth.example.com'',
      serviceurls = Some \<lparr>AI_API_URL = Some ''https://api.example.com''\<rparr>\<rparr>
     ''T'' ''default''
   = \<lparr>run_result = Inr (JArr []),
      run_calls = [\<lparr>req_method = ''GET'',
        req_url = ''https://api.example.com/v2/lm/configurations'',
        req_headers = [(''Authorization'', ''Bearer T''), (''AI-Resource-Group'', ''default'')],
        req_json = None, req_timeout = None\<rparr>],
      run_printed =
        [''Error listing configurations: 500 Server Error: Internal Server Error for url: https://api.example.com/v2/lm/configurations'',
         ''Response: upstream failure'']\<rparr>
  \<and> list_deployments
     (\<lambda>_. Responded \<lparr>resp_status_code = 300, resp_reason = ''Multiple Choices'',
        resp_url = ''https://api.example.com/v2/lm/deployments'', resp_headers = [],
        resp_text = ''choices: none'', resp_json = Inr (JObj [(''choices'', JArr [])])\<rparr>)
     \<lparr>clientid = Some ''id'', clientsecret = Some ''secret'',
      url = Some ''https://auth.example.com'',
      serviceurls = Some \<lparr>AI_API_URL = Some ''https://api.example.com''\<rparr>\<rparr>
     ''T'' ''default''
   = \<lparr>run_result = Inr (JArr []),
      run_calls = [\<lparr>req_method = ''GET'',
        req_url = ''https://api.example.com/v2/lm/deployments'',
        req_headers = [(''Authorization'', ''Bearer T''), (''AI-Resource-Group'', ''default'')],
        req_json = None, req_timeout = None\<rparr>],
      run_printed = []\<rparr>"
  by (simp add: list_configurations_def list_deployments_def get_resources_def send_def
      raise_for_status_def response_json_def py_get_def error_lines_def exc_str_def
      exc_response_text_def http_error_msg_def truthy_def api_base_url_def
      resources_request_def py_str_def show_nat_500 del: show_nat.simps)


subsection \<open>The token of the proxy tests\<close>

text \<open>
  C10, as the script has it. The lookup has a fixed precedence: the value of
  \<^verbatim>\<open>ANTHROPIC_AUTH_TOKEN\<close> when it is set and not empty; otherwise, when \<^verbatim>\<open>config.json\<close>
  holds a JSON object whose \<^verbatim>\<open>secret_authentication_tokens\<close> is a non-empty list, the first
  entry of the list; otherwise, when the file is absent or holds a JSON object in which
  the list is absent or empty, the constant \<^verbatim>\<open>sk-my-secret-key-123\<close>. The lookup can fail:
  when the variable gives no token and the file exists but cannot be opened or decoded,
  the exception of \<^verbatim>\<open>open\<close> or \<^verbatim>\<open>json.load\<close> leaves the function.
\<close>

theorem auth_token_precedence:
  "(t \<noteq> [] \<longrightarrow> get_auth_token (Some t) cf = Inr (JStr t))
   \<and> (env = None \<or> env = Some [] \<longrightarrow>
        get_auth_token env Absent = Inr (JStr ''sk-my-secret-key-123'')
      \<and> (map_of kvs ''secret_authentication_tokens'' = Some (JArr (x # xs))
           \<longrightarrow> get_auth_token env (Parsed (JObj kvs)) = Inr x)
      \<and> (map_of kvs ''secret_authentication_tokens'' = None
            \<or> map_of kvs ''secret_authentication_tokens'' = Some (JArr [])
           \<longrightarrow> get_auth_token env (Parsed (JObj kvs)) = Inr (JStr ''sk-my-secret-key-123''))
      \<and> get_auth_token env (Unreadable msg) = Inl (OSError msg)
      \<and> get_auth_token env (Malformed msg) = Inl (ValueError msg))"
  by (auto simp: get_auth_token_def truthy_def py_str_def py_get_def json_truthy_def
      py_first_def)

theorem auth_token_precedence_witness:
  "get_auth_token (Some ''sk-env'')
      (Parsed (JObj [(''secret_authentication_tokens'', JArr [JStr ''sk-cfg-1'', JStr ''sk-cfg-2''])]))
     = Inr (JStr ''sk-env'')
   \<and> get_auth_token None
      (Parsed (JObj [(''secret_authentication_tokens'', JArr [JStr ''sk-cfg-1'', JStr ''sk-cfg-2''])]))
     = Inr (JStr ''sk-cfg-1'')
   \<and> get_auth_token None (Parsed (JObj [(''port'', JNum 4337)]))
     = Inr (JStr ''sk-my-secret-key-123'')
   \<and> get_auth_token None Absent = Inr (JStr ''sk-my-secret-key-123'')"
  using auth_token_precedence [of "''sk-env''"
      "Parsed (JObj [(''secret_authentication_tokens'', JArr [JStr ''sk-cfg-1'', JStr ''sk-cfg-2''])])"
      None "[(''secret_authentication_tokens'', JArr [JStr ''sk-cfg-1'', JStr ''sk-cfg-2''])]"
      "JStr ''sk-cfg-1''" "[JStr ''sk-cfg-2'']"]
    auth_token_precedence [of "''sk-env''" Absent None "[(''port'', JNum 4337)]"]
  by simp

text \<open>
  The claim fails in two ways. With the variable unset and a \<^verbatim>\<open>config.json\<close> that is not
  valid JSON, the lookup raises the decoder's error. With the variable set to the empty
  string, the lookup returns the first token of the file, not the variable's value.
\<close>

theorem auth_token_fails_counterexample:
  "get_auth_token None (Malformed ''Expecting value: line 1 column 1 (char 0)'')
     = Inl (ValueError ''Expecting value: line 1 column 1 (char 0)'')
   \<and> get_auth_token (Some [])
        (Parsed (JObj [(''secret_authentication_tokens'', JArr [JStr ''sk-cfg-1''])]))
     = Inr (JStr ''sk-cfg-1'')"
  by (simp add: get_auth_token_def truthy_def py_get_def json_truthy_def py_first_def)

end
